theory Spec2Isabelle
  imports Main
begin

section \<open>Monadic containers of the TypeScript library, as HOL functions\<close>

text \<open>
  Each class of the library becomes a datatype (its variants are the subclasses) or a
  record (its fields), and each method a function whose first argument is the receiver.
  Equality between containers is structural equality of their fields, as Jest's
  \<^verbatim>\<open>toEqual\<close> reads it.

  A TypeScript callback can raise instead of returning. Where a claim depends on that
  (Option, Either, Try, and the \<^verbatim>\<open>bind\<close> of Writer that asserts) a callback has type
  \<open>'a \<Rightarrow> 'e + 'b\<close>: \<open>Inl e\<close> is \<^verbatim>\<open>throw e\<close> and \<open>Inr v\<close> is \<^verbatim>\<open>return v\<close>. A
  callback that never raises is \<open>\<lambda>x. Inr (f x)\<close>. The callbacks of List and of the
  \<^verbatim>\<open>bind\<close> of \<^verbatim>\<open>src/Writer.ts\<close> are total functions: no claim about them concerns a
  raising callback. Side effects matter for IO only, whose callbacks pass a state.

  The numbers of the examples are small integers, on which TypeScript's \<^verbatim>\<open>number\<close>
  computes exactly; they are of type \<open>int\<close>. A string is a list of characters and
  \<^verbatim>\<open>x + y\<close> on strings is \<open>x @ y\<close>.
\<close>

subsection \<open>List.ts\<close>

text \<open>
  \<^verbatim>\<open>Pair\<close> holds a head and a tail; \<^verbatim>\<open>Empty\<close> is the shared terminal instance. The
  constructor of \<^verbatim>\<open>Pair\<close> is written \<open>Pair'\<close>, since \<open>Pair\<close> is HOL's tuple.
\<close>

datatype 'a List = Pair' (head: 'a) (tail: "'a List") | Empty

text \<open>\<^verbatim>\<open>match({ifPair, ifEmpty})\<close>: each subclass calls its own handler.\<close>

fun List_match :: "'a List \<Rightarrow> ('a \<Rightarrow> 'a List \<Rightarrow> 'd) \<Rightarrow> (unit \<Rightarrow> 'd) \<Rightarrow> 'd" where
  "List_match (Pair' h t) ifPair ifEmpty = ifPair h t"
| "List_match Empty ifPair ifEmpty = ifEmpty ()"

text \<open>
  The local \<^verbatim>\<open>concat\<close> of \<^verbatim>\<open>Pair.bind\<close>:
  \<^verbatim>\<open>l1.match({ifEmpty: () => l2, ifPair: (head, tail) => new Pair(head, concat(tail, l2))})\<close>.
  The two handlers are the two equations; \<open>concat_List_match\<close> below states the
  equation with \<open>List_match\<close> itself.
\<close>

fun concat_List :: "'a List \<Rightarrow> 'a List \<Rightarrow> 'a List" where
  "concat_List Empty l2 = l2"
| "concat_List (Pair' h t) l2 = Pair' h (concat_List t l2)"

fun List_bind :: "'a List \<Rightarrow> ('a \<Rightarrow> 'd List) \<Rightarrow> 'd List" where
  "List_bind (Pair' h t) func = concat_List (func h) (List_bind t func)"
| "List_bind Empty func = Empty"

fun List_map :: "'a List \<Rightarrow> ('a \<Rightarrow> 'd) \<Rightarrow> 'd List" where
  "List_map (Pair' h t) func = Pair' (func h) (List_map t func)"
| "List_map Empty func = Empty"

fun List_filter :: "'a List \<Rightarrow> ('a \<Rightarrow> bool) \<Rightarrow> 'a List" where
  "List_filter (Pair' h t) func =
     (if func h then Pair' h (List_filter t func) else List_filter t func)"
| "List_filter Empty func = Empty"

text \<open>\<^verbatim>\<open>foldLeft(seed)(func)\<close> and \<^verbatim>\<open>foldRight(seed)(func)\<close> are curried in the source.\<close>

fun List_foldLeft :: "'a List \<Rightarrow> 'd \<Rightarrow> ('d \<Rightarrow> 'a \<Rightarrow> 'd) \<Rightarrow> 'd" where
  "List_foldLeft (Pair' h t) seed func = List_foldLeft t (func seed h) func"
| "List_foldLeft Empty seed func = seed"

fun List_foldRight :: "'a List \<Rightarrow> 'd \<Rightarrow> ('d \<Rightarrow> 'a \<Rightarrow> 'd) \<Rightarrow> 'd" where
  "List_foldRight (Pair' h t) seed func = func (List_foldRight t seed func) h"
| "List_foldRight Empty seed func = seed"

text \<open>\<^verbatim>\<open>isEmpty()\<close>: both \<^verbatim>\<open>Pair.isEmpty\<close> and \<^verbatim>\<open>Empty.isEmpty\<close> are \<^verbatim>\<open>return false\<close>.\<close>

fun List_isEmpty :: "'a List \<Rightarrow> bool" where
  "List_isEmpty (Pair' h t) = False"
| "List_isEmpty Empty = False"

text \<open>
  The class has no unit of its own; the monad laws are stated for the one-element list
  \<^verbatim>\<open>new Pair(a, Empty.get())\<close>.
\<close>

definition List_pure :: "'a \<Rightarrow> 'a List" where
  "List_pure a = Pair' a Empty"

text \<open>The elements of a list in order, and the list built from given elements.\<close>

fun to_list :: "'a List \<Rightarrow> 'a list" where
  "to_list (Pair' h t) = h # to_list t"
| "to_list Empty = []"

fun of_list :: "'a list \<Rightarrow> 'a List" where
  "of_list [] = Empty"
| "of_list (x # xs) = Pair' x (of_list xs)"

subsection \<open>Raising and returning\<close>

text \<open>
  \<^verbatim>\<open>a.m(f).n(g)\<close> where the first call may raise: the second call runs on what the
  first returned, and an error raised by the first is the outcome of the whole.
\<close>

definition and_then :: "'e + 'a \<Rightarrow> ('a \<Rightarrow> 'e + 'b) \<Rightarrow> 'e + 'b" where
  "and_then r k = (case r of Inl e \<Rightarrow> Inl e | Inr v \<Rightarrow> k v)"

subsection \<open>Option.ts\<close>

text \<open>
  \<^verbatim>\<open>Some\<close> holds one value, \<^verbatim>\<open>None\<close> is the shared instance holding nothing: HOL's
  \<open>option\<close> type has these two variants under the same names. The methods are
  translated from the class; none of HOL's own functions on \<open>option\<close> is used.
\<close>

type_synonym 'a Option = "'a option"

definition Option_pure :: "'a \<Rightarrow> 'a Option" where
  "Option_pure v = Some v"

text \<open>\<^verbatim>\<open>Some.bind\<close> is \<^verbatim>\<open>return func(this.value)\<close>, \<^verbatim>\<open>None.bind\<close> is \<^verbatim>\<open>return None.get()\<close>.\<close>

fun Option_bind :: "'a Option \<Rightarrow> ('a \<Rightarrow> 'e + 'b Option) \<Rightarrow> 'e + 'b Option" where
  "Option_bind (Some v) func = func v"
| "Option_bind None func = Inr None"

fun Option_match :: "'a Option \<Rightarrow> ('a \<Rightarrow> 'd) \<Rightarrow> (unit \<Rightarrow> 'd) \<Rightarrow> 'd" where
  "Option_match (Some v) ifSome ifNone = ifSome v"
| "Option_match None ifSome ifNone = ifNone ()"

text \<open>\<^verbatim>\<open>map(func)\<close> is \<^verbatim>\<open>this.bind((value) => Option.pure(func(value)))\<close>.\<close>

definition Option_map :: "'a Option \<Rightarrow> ('a \<Rightarrow> 'e + 'b) \<Rightarrow> 'e + 'b Option" where
  "Option_map this func =
     Option_bind this (\<lambda>v. and_then (func v) (\<lambda>b. Inr (Option_pure b)))"

definition Option_getOrElse :: "'a Option \<Rightarrow> 'a \<Rightarrow> 'a" where
  "Option_getOrElse this defaultValue = Option_match this (\<lambda>v. v) (\<lambda>_. defaultValue)"

subsection \<open>Either.ts\<close>

datatype ('l, 'r) Either = Left 'l | Right 'r

definition asRight :: "'r \<Rightarrow> ('l, 'r) Either" where
  "asRight v = Right v"

definition asLeft :: "'l \<Rightarrow> ('l, 'r) Either" where
  "asLeft v = Left v"

text \<open>
  \<^verbatim>\<open>Right.bind\<close> is \<^verbatim>\<open>return func(this.value)\<close>, \<^verbatim>\<open>Left.bind\<close> is
  \<^verbatim>\<open>return new Left(this.value)\<close>.
\<close>

fun Either_bind ::
  "('l, 'r) Either \<Rightarrow> ('r \<Rightarrow> 'e + ('l, 't) Either) \<Rightarrow> 'e + ('l, 't) Either" where
  "Either_bind (Right v) func = func v"
| "Either_bind (Left v) func = Inr (Left v)"

fun Either_match :: "('l, 'r) Either \<Rightarrow> ('l \<Rightarrow> 'd) \<Rightarrow> ('r \<Rightarrow> 'd) \<Rightarrow> 'd" where
  "Either_match (Right v) ifLeft ifRight = ifRight v"
| "Either_match (Left v) ifLeft ifRight = ifLeft v"

text \<open>\<^verbatim>\<open>map(func)\<close> is \<^verbatim>\<open>this.bind((value) => Either.asRight(func(value)))\<close>.\<close>

definition Either_map :: "('l, 'r) Either \<Rightarrow> ('r \<Rightarrow> 'e + 't) \<Rightarrow> 'e + ('l, 't) Either" where
  "Either_map this func =
     Either_bind this (\<lambda>v. and_then (func v) (\<lambda>t. Inr (asRight t)))"

fun Either_getOrElse :: "('l, 'r) Either \<Rightarrow> 'r \<Rightarrow> 'r" where
  "Either_getOrElse (Right v) defaultValue = v"
| "Either_getOrElse (Left v) defaultValue = defaultValue"

subsection \<open>Try.ts\<close>

text \<open>
  The error type \<^verbatim>\<open>E\<close> of a \<^verbatim>\<open>Try\<close> is the type of what a callback raises
  (\<^verbatim>\<open>err as E\<close>). Every method body of \<^verbatim>\<open>Success.bind\<close>, \<^verbatim>\<open>Success.map\<close>,
  \<^verbatim>\<open>Failure.recover\<close> and \<^verbatim>\<open>Failure.recoverWith\<close> is
  \<^verbatim>\<open>try { return ... } catch (err) { return new Failure(err) }\<close>: the \<open>Inl\<close> branch is
  the \<^verbatim>\<open>catch\<close> block. No method raises, so each returns a \<open>Try\<close>.
\<close>

datatype ('a, 'e) Try = Success 'a | Failure 'e

fun Try_bind :: "('a, 'e) Try \<Rightarrow> ('a \<Rightarrow> 'e + ('b, 'e) Try) \<Rightarrow> ('b, 'e) Try" where
  "Try_bind (Success v) func = (case func v of Inr r \<Rightarrow> r | Inl err \<Rightarrow> Failure err)"
| "Try_bind (Failure e) func = Failure e"

fun Try_map :: "('a, 'e) Try \<Rightarrow> ('a \<Rightarrow> 'e + 'b) \<Rightarrow> ('b, 'e) Try" where
  "Try_map (Success v) func = (case func v of Inr b \<Rightarrow> Success b | Inl err \<Rightarrow> Failure err)"
| "Try_map (Failure e) func = Failure e"

fun Try_getOrElse :: "('a, 'e) Try \<Rightarrow> 'a \<Rightarrow> 'a" where
  "Try_getOrElse (Success v) defaultValue = v"
| "Try_getOrElse (Failure e) defaultValue = defaultValue"

fun Try_recover :: "('a, 'e) Try \<Rightarrow> ('e \<Rightarrow> 'e + 'a) \<Rightarrow> ('a, 'e) Try" where
  "Try_recover (Success v) func = Success v"
| "Try_recover (Failure e) func =
     (case func e of Inr a \<Rightarrow> Success a | Inl err \<Rightarrow> Failure err)"

fun Try_recoverWith :: "('a, 'e) Try \<Rightarrow> ('e \<Rightarrow> 'e + ('a, 'e) Try) \<Rightarrow> ('a, 'e) Try" where
  "Try_recoverWith (Success v) func = Success v"
| "Try_recoverWith (Failure e) func = (case func e of Inr r \<Rightarrow> r | Inl err \<Rightarrow> Failure err)"

subsection \<open>IO.ts\<close>

text \<open>
  An \<^verbatim>\<open>IO\<close> holds one field, the deferred function \<^verbatim>\<open>effect: () => A\<close>. What a
  JavaScript function does besides returning is a change of the program's state (here
  of type \<open>'s\<close>: the variables its closure can write), so a nullary function is a
  state transformer \<open>'s \<Rightarrow> 'a \<times> 's\<close> and a callback \<^verbatim>\<open>(value: A) => IO<B>\<close> is
  \<open>'a \<Rightarrow> 's \<Rightarrow> ('s, 'b) IO \<times> 's\<close>. A callback without side effects is
  \<open>\<lambda>a s. (f a, s)\<close>. Thunks and callbacks return; a raising one is outside this model.

  \<^verbatim>\<open>of\<close>, \<^verbatim>\<open>from\<close>, \<^verbatim>\<open>bind\<close> and \<^verbatim>\<open>map\<close> only allocate \<^verbatim>\<open>new IO(...)\<close> around a closure:
  they take no state and return none. \<^verbatim>\<open>runUnsafe\<close> is the one method that calls
  \<^verbatim>\<open>this.effect()\<close>, and the object has no field where a result could be kept.
\<close>

datatype ('s, 'a) IO = IO (effect: "'s \<Rightarrow> 'a \<times> 's")

definition runUnsafe :: "('s, 'a) IO \<Rightarrow> 's \<Rightarrow> 'a \<times> 's" where
  "runUnsafe this s = effect this s"

text \<open>\<^verbatim>\<open>bind(func)\<close> is \<^verbatim>\<open>new IO(() => func(this.effect()).runUnsafe())\<close>.\<close>

definition IO_bind :: "('s, 'a) IO \<Rightarrow> ('a \<Rightarrow> 's \<Rightarrow> ('s, 'b) IO \<times> 's) \<Rightarrow> ('s, 'b) IO" where
  "IO_bind this func =
     IO (\<lambda>s. case effect this s of (a, s1) \<Rightarrow>
           (case func a s1 of (next, s2) \<Rightarrow> runUnsafe next s2))"

text \<open>\<^verbatim>\<open>map(func)\<close> is \<^verbatim>\<open>new IO(() => func(this.effect()))\<close>.\<close>

definition IO_map :: "('s, 'a) IO \<Rightarrow> ('a \<Rightarrow> 's \<Rightarrow> 'b \<times> 's) \<Rightarrow> ('s, 'b) IO" where
  "IO_map this func = IO (\<lambda>s. case effect this s of (a, s1) \<Rightarrow> func a s1)"

definition IO_of :: "'a \<Rightarrow> ('s, 'a) IO" where
  "IO_of v = IO (\<lambda>s. (v, s))"

definition IO_from :: "('s \<Rightarrow> 'a \<times> 's) \<Rightarrow> ('s, 'a) IO" where
  "IO_from thunk = IO thunk"

text \<open>
  The program of the specification's test,
  \<^verbatim>\<open>IO.of(1).bind(v => {sideEffectCounter++; return IO.of(v)})\<close>; the state is the
  variable \<^verbatim>\<open>sideEffectCounter\<close>.
\<close>

definition counter_program :: "(int, int) IO" where
  "counter_program =
     IO_bind (IO_of 1) (\<lambda>v sideEffectCounter. (IO_of v, sideEffectCounter + 1))"

subsection \<open>Monoid.ts\<close>

text \<open>
  A \<^verbatim>\<open>Monoid\<close> is an object with the fields \<^verbatim>\<open>combine\<close> and \<^verbatim>\<open>pure\<close>. \<^verbatim>\<open>Writer.bind\<close>
  compares two of them with \<^verbatim>\<open>===\<close>, which is identity of the objects and not
  equality of their fields, so the model of the object carries its identity:
  \<open>address\<close> is where the object was allocated, and \<^verbatim>\<open>a === b\<close> is
  \<open>address a = address b\<close>.
\<close>

record 'w Monoid =
  address :: nat
  combine :: "'w \<Rightarrow> 'w \<Rightarrow> 'w"
  pure :: 'w

text \<open>
  The module constant \<^verbatim>\<open>StringConcatMonoid\<close> (named \<^verbatim>\<open>StringLog\<close> where it is declared
  in \<^verbatim>\<open>Writer.ts\<close>) is allocated once. Each call of \<^verbatim>\<open>ListMonoid()\<close> allocates a new
  object: the argument of \<open>ListMonoid\<close> is the address of that allocation.
\<close>

definition StringConcatMonoid :: "string Monoid" where
  "StringConcatMonoid = \<lparr>address = 0, combine = (\<lambda>x y. x @ y), pure = []\<rparr>"

definition StringLog :: "string Monoid" where
  "StringLog = StringConcatMonoid"

definition ListMonoid :: "nat \<Rightarrow> 't list Monoid" where
  "ListMonoid a = \<lparr>address = a, combine = (\<lambda>x y. x @ y), pure = []\<rparr>"

text \<open>The monoid \<^verbatim>\<open>lastLogOnlyMonoid\<close> of the Writer tests: \<^verbatim>\<open>combine: (_x, y) => y\<close>.\<close>

definition lastLogOnlyMonoid :: "string Monoid" where
  "lastLogOnlyMonoid = \<lparr>address = 1, combine = (\<lambda>x y. y), pure = []\<rparr>"

text \<open>The monoid laws of the specification: \<^verbatim>\<open>pure\<close> is an identity of the associative \<^verbatim>\<open>combine\<close>.\<close>

definition lawful :: "'w Monoid \<Rightarrow> bool" where
  "lawful M \<longleftrightarrow>
     (\<forall>x. combine M (pure M) x = x) \<and> (\<forall>x. combine M x (pure M) = x)
     \<and> (\<forall>x y z. combine M (combine M x y) z = combine M x (combine M y z))"

subsection \<open>Writer.ts\<close>

record ('w, 'a) Writer =
  "value" :: 'a
  log :: 'w
  monoid :: "'w Monoid"

text \<open>
  The class exists in two forms. In \<^verbatim>\<open>src/Writer.ts\<close> (and in the copy that imports
  \<^verbatim>\<open>Monoid\<close> from its own module) \<^verbatim>\<open>bind\<close> takes \<^verbatim>\<open>func: (value: A) => Writer<W, B>\<close>:
  \<^verbatim>\<open>const result = func(this.value);\<close>
  \<^verbatim>\<open>const log = this.monoid.combine(this.log, result.log);\<close>
  \<^verbatim>\<open>return new Writer<W, B>(result.value, log, this.monoid);\<close>
\<close>

definition Writer_bind :: "('w, 'a) Writer \<Rightarrow> ('a \<Rightarrow> ('w, 'b) Writer) \<Rightarrow> ('w, 'b) Writer" where
  "Writer_bind this func =
     (let result = func (value this);
          log' = combine (monoid this) (log this) (log result)
      in \<lparr>value = value result, log = log', monoid = monoid this\<rparr>)"

definition Writer_map :: "('w, 'a) Writer \<Rightarrow> ('a \<Rightarrow> 'b) \<Rightarrow> ('w, 'b) Writer" where
  "Writer_map this func = \<lparr>value = func (value this), log = log this, monoid = monoid this\<rparr>"

definition Writer_of :: "'a \<Rightarrow> 'w Monoid \<Rightarrow> ('w, 'a) Writer" where
  "Writer_of v M = \<lparr>value = v, log = pure M, monoid = M\<rparr>"

definition Writer_tell :: "('w, 'a) Writer \<Rightarrow> 'w \<Rightarrow> ('w, 'a) Writer" where
  "Writer_tell this l =
     (let newLog = combine (monoid this) (log this) l
      in \<lparr>value = value this, log = newLog, monoid = monoid this\<rparr>)"

definition Writer_run :: "('w, 'a) Writer \<Rightarrow> 'a \<times> 'w" where
  "Writer_run this = (value this, log this)"

text \<open>
  In the class that uses \<^verbatim>\<open>assert\<close> (the one the Writer tests call, with
  \<^verbatim>\<open>bind((value, make) => ...)\<close>), \<^verbatim>\<open>bind\<close> hands the callback a helper and checks the
  result:
  \<^verbatim>\<open>const make = (value, log) => new Writer(value, log, this.monoid);\<close>
  \<^verbatim>\<open>const result = func(this.value, make);\<close>
  \<^verbatim>\<open>assert(result.monoid === this.monoid, "Must have the same monoid");\<close>
  \<^verbatim>\<open>const combinedLog = this.monoid.combine(this.log, result.log);\<close>
  \<^verbatim>\<open>return new Writer(result.value, combinedLog, this.monoid);\<close>
  The closure \<^verbatim>\<open>make\<close> is generic in the type of its value; it is represented by the one
  variable it captures, \<open>Make (monoid this)\<close>, and applied by \<open>make_call\<close>. A failed
  \<^verbatim>\<open>assert\<close> raises an \<^verbatim>\<open>AssertionError\<close>; the callback may raise as well (it can call
  \<^verbatim>\<open>bind\<close> itself).
\<close>

datatype 'w make = Make "'w Monoid"

fun make_call :: "'w make \<Rightarrow> 't \<Rightarrow> 'w \<Rightarrow> ('w, 't) Writer" where
  "make_call (Make M) v l = \<lparr>value = v, log = l, monoid = M\<rparr>"

datatype 'e thrown = AssertionError string | Thrown 'e

definition Writer_bind_assert ::
  "('w, 'a) Writer \<Rightarrow> ('a \<Rightarrow> 'w make \<Rightarrow> 'e thrown + ('w, 'b) Writer)
     \<Rightarrow> 'e thrown + ('w, 'b) Writer" where
  "Writer_bind_assert this func =
     and_then (func (value this) (Make (monoid this))) (\<lambda>result.
       if address (monoid result) = address (monoid this)
       then (let combinedLog = combine (monoid this) (log this) (log result)
             in Inr \<lparr>value = value result, log = combinedLog, monoid = monoid this\<rparr>)
       else Inl (AssertionError ''Must have the same monoid''))"

text \<open>
  The chain of the specification's factorial test, on the string monoid: five binds
  from \<^verbatim>\<open>Writer.of(1, StringLog)\<close>, the \<open>n\<close>-th multiplying by \<open>n\<close> and logging
  \<open>temp n (prev * n)\<close> (the test's \<^verbatim>\<open>temp\<close> formats the entry; it is a parameter here).
\<close>

definition fac_step ::
  "(int \<Rightarrow> int \<Rightarrow> string) \<Rightarrow> int \<Rightarrow> (string, int) Writer \<Rightarrow> (string, int) Writer" where
  "fac_step temp n w =
     Writer_bind w (\<lambda>prev. Writer_tell (Writer_of (prev * n) StringLog) (temp n (prev * n)))"

definition factorial5 :: "(int \<Rightarrow> int \<Rightarrow> string) \<Rightarrow> (string, int) Writer" where
  "factorial5 temp =
     fac_step temp 5 (fac_step temp 4 (fac_step temp 3 (fac_step temp 2
       (fac_step temp 1 (Writer_of 1 StringLog)))))"

subsection \<open>ADTs.ts\<close>

text \<open>
  A value of a sum type is an object with the discriminant \<^verbatim>\<open>_type\<close> (written
  \<open>ADT_type\<close>: a name cannot start with an underscore here) and the other fields of
  its variant. The constructor that \<^verbatim>\<open>makeConstructors\<close> returns for the key \<open>key\<close> is
  \<^verbatim>\<open>(args) => ({ _type: key, ...args })\<close>; its argument type leaves \<^verbatim>\<open>_type\<close> out of
  \<^verbatim>\<open>args\<close>.
\<close>

record 'p ADT =
  ADT_type :: string
  payload :: 'p

definition makeConstructors :: "string \<Rightarrow> 'p \<Rightarrow> 'p ADT" where
  "makeConstructors key args = \<lparr>ADT_type = key, payload = args\<rparr>"

text \<open>
  \<^verbatim>\<open>match(value, handlers)\<close> is \<^verbatim>\<open>return handlers[value._type](value)\<close>. The handler map
  is an object written as a literal: a finite map from its own keys to functions.
  JavaScript's \<^verbatim>\<open>handlers[k]\<close> reads the own property \<open>k\<close>, and where there is none
  the property \<open>k\<close> of the prototype, which for a literal is \<^verbatim>\<open>Object.prototype\<close>; where
  neither has it the value is \<^verbatim>\<open>undefined\<close>, and calling that raises a \<^verbatim>\<open>TypeError\<close>.

  \<open>Object_prototype_functions\<close> lists the properties of \<^verbatim>\<open>Object.prototype\<close> that are
  functions and return when called on an object with one object as argument. Its other
  properties raise a \<^verbatim>\<open>TypeError\<close> in that call (\<^verbatim>\<open>__proto__\<close> is not a function;
  \<^verbatim>\<open>__defineGetter__\<close> and \<^verbatim>\<open>__defineSetter__\<close> reject a missing second argument), as
  \<^verbatim>\<open>undefined\<close> does. What an inherited function returns is not the result of a handler;
  the model records which function it was.
\<close>

type_synonym ('p, 'r) Handlers = "string \<rightharpoonup> ('p ADT \<Rightarrow> 'r)"

definition Object_prototype_functions :: "string list" where
  "Object_prototype_functions =
     [''constructor'', ''hasOwnProperty'', ''isPrototypeOf'', ''propertyIsEnumerable'',
      ''toLocaleString'', ''toString'', ''valueOf'', ''__lookupGetter__'',
      ''__lookupSetter__'']"

datatype dispatch_error = TypeError

datatype 'r match_result = HandlerResult 'r | InheritedResult string

definition ADT_match :: "'p ADT \<Rightarrow> ('p, 'r) Handlers \<Rightarrow> dispatch_error + 'r match_result" where
  "ADT_match v handlers =
     (case handlers (ADT_type v) of
        Some handler \<Rightarrow> Inr (HandlerResult (handler v))
      | None \<Rightarrow>
          if ADT_type v \<in> set Object_prototype_functions
          then Inr (InheritedResult (ADT_type v))
          else Inl TypeError)"

section \<open>Properties\<close>

subsection \<open>List\<close>

lemma concat_List_match:
  "concat_List l1 l2 = List_match l1 (\<lambda>head tail. Pair' head (concat_List tail l2)) (\<lambda>_. l2)"
  by (cases l1) simp_all

lemma to_list_of_list [simp]: "to_list (of_list xs) = xs"
  by (induction xs) simp_all

lemma of_list_to_list [simp]: "of_list (to_list l) = l"
  by (induction l) simp_all

lemma to_list_concat_List [simp]: "to_list (concat_List l1 l2) = to_list l1 @ to_list l2"
  by (induction l1) simp_all

lemma concat_List_Empty_right [simp]: "concat_List l Empty = l"
  by (induction l) simp_all

lemma concat_List_assoc:
  "concat_List (concat_List l1 l2) l3 = concat_List l1 (concat_List l2 l3)"
  by (induction l1) simp_all

lemma List_bind_concat_List:
  "List_bind (concat_List l1 l2) f = concat_List (List_bind l1 f) (List_bind l2 f)"
  by (induction l1) (simp_all add: concat_List_assoc)

lemma to_list_List_bind:
  "to_list (List_bind l f) = concat (map (\<lambda>x. to_list (f x)) (to_list l))"
  by (induction l) simp_all

text \<open>
  C1 (the code at \<^verbatim>\<open>Empty.isEmpty\<close>). The claim asks for \<open>True\<close> on the canonical
  empty list; \<^verbatim>\<open>Empty.isEmpty\<close> returns \<^verbatim>\<open>false\<close>, as \<^verbatim>\<open>Pair.isEmpty\<close> does, so the
  predicate is \<open>False\<close> on every list and does not tell the empty list from a
  non-empty one.
\<close>

theorem List_isEmpty_Empty_is_False:
  "List_isEmpty (Empty :: 'a List) = False \<and> List_isEmpty (Pair' h t) = False"
  by simp

text \<open>
  C5. \<^verbatim>\<open>bind\<close> applies the function to every element in the original order and
  concatenates the results: the elements of \<open>List_bind l f\<close> are those of \<open>f x1\<close>, then
  those of \<open>f x2\<close>, and so on; a non-empty receiver is \<open>f head\<close> followed by the bound
  tail; \<^verbatim>\<open>Empty.bind\<close> is \<^verbatim>\<open>Empty\<close>; and \<open>[1,2,3]\<close> with \<open>f x = [x, x*10]\<close> gives
  \<open>[1,10,2,20,3,30]\<close>.
\<close>

theorem List_bind_flattens_in_order:
  "to_list (List_bind l f) = concat (map (\<lambda>x. to_list (f x)) (to_list l))
   \<and> List_bind (of_list xs) f = of_list (concat (map (\<lambda>x. to_list (f x)) xs))
   \<and> List_bind (Pair' x t) f = concat_List (f x) (List_bind t f)
   \<and> List_bind Empty f = Empty
   \<and> List_bind (of_list [1, 2, 3 :: int]) (\<lambda>x. of_list [x, x * 10])
       = of_list [1, 10, 2, 20, 3, 30]"
proof -
  have "to_list (List_bind (of_list xs) f) = concat (map (\<lambda>x. to_list (f x)) xs)"
    by (simp add: to_list_List_bind)
  then have "of_list (to_list (List_bind (of_list xs) f))
      = of_list (concat (map (\<lambda>x. to_list (f x)) xs))"
    by simp
  then have "List_bind (of_list xs) f = of_list (concat (map (\<lambda>x. to_list (f x)) xs))"
    by (simp only: of_list_to_list)
  then show ?thesis
    by (simp add: to_list_List_bind)
qed

text \<open>
  C6. \<^verbatim>\<open>foldRight(seed)(f)\<close> on \<^verbatim>\<open>Pair(head, tail)\<close> is \<open>f (fold of the tail) head\<close>: the
  folded tail is the first argument and the head the second; on \<^verbatim>\<open>Empty\<close> it is the
  seed. Over the elements in order this is HOL's \<open>foldr\<close> with the arguments of \<open>f\<close>
  swapped.
\<close>

theorem List_foldRight_head_second:
  "List_foldRight (Pair' h t) seed f = f (List_foldRight t seed f) h
   \<and> List_foldRight Empty seed f = seed
   \<and> List_foldRight l seed f = foldr (\<lambda>x acc. f acc x) (to_list l) seed"
proof -
  have "List_foldRight l seed f = foldr (\<lambda>x acc. f acc x) (to_list l) seed"
    by (induction l) simp_all
  then show ?thesis by simp
qed

subsection \<open>Try\<close>

text \<open>
  C3. On \<^verbatim>\<open>Success(x)\<close>, \<^verbatim>\<open>bind\<close> and \<^verbatim>\<open>map\<close> turn an error raised by their function
  into \<^verbatim>\<open>Failure\<close> of that error, and otherwise give the function's result (\<^verbatim>\<open>bind\<close>)
  or \<^verbatim>\<open>Success\<close> of it (\<^verbatim>\<open>map\<close>). On \<^verbatim>\<open>Failure(e)\<close> they give \<^verbatim>\<open>Failure(e)\<close> for
  every function, also one that raises on every argument, so the function is not
  invoked. \<^verbatim>\<open>recover\<close> and \<^verbatim>\<open>recoverWith\<close> on \<^verbatim>\<open>Failure(e)\<close> apply their function to
  \<open>e\<close> and turn a raised error into a new \<^verbatim>\<open>Failure\<close>; on \<^verbatim>\<open>Success\<close> they return the
  receiver.
\<close>

theorem Try_intercepts_at_every_combinator:
  "(f x = Inl e \<longrightarrow> Try_bind (Success x) f = Failure e)
   \<and> (f x = Inr t \<longrightarrow> Try_bind (Success x) f = t)
   \<and> (g x = Inl e \<longrightarrow> Try_map (Success x) g = Failure e)
   \<and> (g x = Inr y \<longrightarrow> Try_map (Success x) g = Success y)
   \<and> Try_bind (Failure e) f = Failure e
   \<and> Try_map (Failure e) g = Failure e
   \<and> (h e = Inl e' \<longrightarrow> Try_recover (Failure e) h = Failure e')
   \<and> (h e = Inr x \<longrightarrow> Try_recover (Failure e) h = Success x)
   \<and> (k e = Inl e' \<longrightarrow> Try_recoverWith (Failure e) k = Failure e')
   \<and> (k e = Inr r \<longrightarrow> Try_recoverWith (Failure e) k = r)
   \<and> Try_recover (Success x) h = Success x
   \<and> Try_recoverWith (Success x) k = Success x"
  by simp

text \<open>
  The inputs of the specification's test: a function raising \<open>''boom''\<close> under
  \<^verbatim>\<open>Success(1).bind\<close> and \<^verbatim>\<open>.map\<close>, and \<^verbatim>\<open>Failure("boom").recover(err => err.length)\<close>;
  then the returning branches.
\<close>

theorem Try_intercepts_witness:
  "Try_bind (Success (1 :: int)) (\<lambda>_. Inl ''boom'') = (Failure ''boom'' :: (int, string) Try)
   \<and> Try_map (Success (1 :: int)) (\<lambda>_. Inl ''boom'') = (Failure ''boom'' :: (int, string) Try)
   \<and> Try_recover (Failure ''boom'') (\<lambda>err. Inr (length err)) = Success 4
   \<and> Try_recoverWith (Failure ''boom'') (\<lambda>err. Inr (Success (length err))) = Success 4
   \<and> Try_recover (Failure ''boom'') (\<lambda>err. Inl (err @ ''!'')) = (Failure ''boom!'' :: (nat, string) Try)
   \<and> Try_recoverWith (Failure ''boom'') (\<lambda>err. Inl (err @ ''!''))
       = (Failure ''boom!'' :: (nat, string) Try)
   \<and> Try_bind (Success (1 :: int)) (\<lambda>v. Inr (Success (v + 1))) = (Success 2 :: (int, string) Try)
   \<and> Try_map (Success (1 :: int)) (\<lambda>v. Inr (v + 1)) = (Success 2 :: (int, string) Try)"
  using
    Try_intercepts_at_every_combinator
      [where f = "\<lambda>_ :: int. Inl ''boom'' :: string + (int, string) Try"
         and g = "\<lambda>_ :: int. Inl ''boom'' :: string + int"
         and x = 1 and e = "''boom''" and e' = "''boom!''"
         and h = "\<lambda>err. Inl (err @ ''!'') :: string + int"
         and k = "\<lambda>err. Inl (err @ ''!'') :: string + (int, string) Try"]
    Try_intercepts_at_every_combinator
      [where f = "\<lambda>v :: int. Inr (Success (v + 1)) :: string + (int, string) Try"
         and g = "\<lambda>v :: int. Inr (v + 1) :: string + int"
         and x = 1 and t = "Success 2" and y = 2 and e = "''boom''"
         and h = "\<lambda>err. Inr (int (length err)) :: string + int"
         and k = "\<lambda>err. Inr (Success (int (length err))) :: string + (int, string) Try"
         and r = "Success 4"]
  by simp

subsection \<open>Option and Either\<close>

text \<open>
  C4. \<^verbatim>\<open>None.bind(f)\<close> is \<^verbatim>\<open>None\<close> and \<^verbatim>\<open>Left(l).bind(f)\<close> is \<^verbatim>\<open>Left(l)\<close> for every
  \<open>f\<close>, also one that raises on every argument, so \<open>f\<close> is not invoked (and the same
  for \<^verbatim>\<open>map\<close>). On \<^verbatim>\<open>Some(x)\<close> and \<^verbatim>\<open>Right(x)\<close> an error raised by the function is the
  outcome of \<^verbatim>\<open>bind\<close> and of \<^verbatim>\<open>map\<close>: it is raised to the caller, not turned into a
  container.
\<close>

theorem Option_Either_short_circuit_never_catch:
  "Option_bind None f = Inr None
   \<and> Either_bind (Left l) g = Inr (Left l)
   \<and> Option_map None p = Inr None
   \<and> Either_map (Left l) q = Inr (Left l)
   \<and> (f x = Inl e \<longrightarrow> Option_bind (Some x) f = Inl e)
   \<and> (p x = Inl e \<longrightarrow> Option_map (Some x) p = Inl e)
   \<and> (g y = Inl e \<longrightarrow> Either_bind (Right y) g = Inl e)
   \<and> (q y = Inl e \<longrightarrow> Either_map (Right y) q = Inl e)"
  by (simp add: Option_map_def Either_map_def and_then_def)

theorem Option_Either_never_catch_witness:
  "Option_bind (Some (5 :: int)) (\<lambda>_. Inl ''boom'') = (Inl ''boom'' :: string + int Option)
   \<and> Option_map (Some (5 :: int)) (\<lambda>_. Inl ''boom'') = (Inl ''boom'' :: string + int Option)
   \<and> Either_bind (Right (5 :: int)) (\<lambda>_. Inl ''boom'')
       = (Inl ''boom'' :: string + (string, int) Either)
   \<and> Either_map (Right (5 :: int)) (\<lambda>_. Inl ''boom'')
       = (Inl ''boom'' :: string + (string, int) Either)
   \<and> Option_bind (None :: int Option) (\<lambda>_. Inl ''boom'') = (Inr None :: string + int Option)
   \<and> Either_bind (Left ''e'' :: (string, int) Either) (\<lambda>_. Inl ''boom'')
       = (Inr (Left ''e'') :: string + (string, int) Either)"
  using
    Option_Either_short_circuit_never_catch
      [where f = "\<lambda>_ :: int. Inl ''boom'' :: string + int Option"
         and p = "\<lambda>_ :: int. Inl ''boom'' :: string + int"
         and g = "\<lambda>_ :: int. Inl ''boom'' :: string + (string, int) Either"
         and q = "\<lambda>_ :: int. Inl ''boom'' :: string + int"
         and x = 5 and y = 5 and e = "''boom''" and l = "''e''"]
  by (simp add: Option_map_def Either_map_def and_then_def)

subsection \<open>The monad laws\<close>

text \<open>
  A callback of the laws is a function without side effects that returns: \<open>\<lambda>x. Inr (f x)\<close>
  where the model lets a callback raise, \<open>\<lambda>x s. (f x, s)\<close> for IO. The unit is
  \<^verbatim>\<open>Option.pure\<close>, \<^verbatim>\<open>Either.asRight\<close>, \<^verbatim>\<open>new Success\<close>, \<^verbatim>\<open>IO.of\<close>, the one-element list
  and \<^verbatim>\<open>Writer.of(_, M)\<close>.
\<close>

lemma Option_left_identity: "Option_bind (Option_pure a) (\<lambda>x. Inr (f x)) = Inr (f a)"
  by (simp add: Option_pure_def)

lemma Option_right_identity: "Option_bind m (\<lambda>x. Inr (Option_pure x)) = Inr m"
  by (cases m) (simp_all add: Option_pure_def)

lemma Option_associativity:
  "and_then (Option_bind m (\<lambda>x. Inr (f x))) (\<lambda>r. Option_bind r (\<lambda>y. Inr (g y)))
   = Option_bind m (\<lambda>x. Option_bind (f x) (\<lambda>y. Inr (g y)))"
  by (cases m) (simp_all add: and_then_def)

lemma Either_left_identity: "Either_bind (asRight a) (\<lambda>x. Inr (f x)) = Inr (f a)"
  by (simp add: asRight_def)

lemma Either_right_identity: "Either_bind m (\<lambda>x. Inr (asRight x)) = Inr m"
  by (cases m) (simp_all add: asRight_def)

lemma Either_associativity:
  "and_then (Either_bind m (\<lambda>x. Inr (f x))) (\<lambda>r. Either_bind r (\<lambda>y. Inr (g y)))
   = Either_bind m (\<lambda>x. Either_bind (f x) (\<lambda>y. Inr (g y)))"
  by (cases m) (simp_all add: and_then_def)

lemma Try_left_identity: "Try_bind (Success a) (\<lambda>x. Inr (f x)) = f a"
  by simp

lemma Try_right_identity: "Try_bind m (\<lambda>x. Inr (Success x)) = m"
  by (cases m) simp_all

lemma Try_associativity:
  "Try_bind (Try_bind m (\<lambda>x. Inr (f x))) (\<lambda>y. Inr (g y))
   = Try_bind m (\<lambda>x. Inr (Try_bind (f x) (\<lambda>y. Inr (g y))))"
  by (cases m) simp_all

text \<open>
  Why the law is one of the Success branch: when \<open>f\<close> raises, \<^verbatim>\<open>f(a)\<close> raises and
  \<^verbatim>\<open>new Success(a).bind(f)\<close> returns a \<^verbatim>\<open>Failure\<close>.
\<close>

lemma Try_bind_raising_callback: "f a = Inl e \<Longrightarrow> Try_bind (Success a) f = Failure e"
  by simp

lemma IO_left_identity: "IO_bind (IO_of a) (\<lambda>x s. (f x, s)) = f a"
  by (cases "f a") (simp add: IO_bind_def IO_of_def runUnsafe_def)

lemma IO_right_identity: "IO_bind m (\<lambda>x s. (IO_of x, s)) = m"
  by (cases m) (simp add: IO_bind_def IO_of_def runUnsafe_def)

lemma IO_associativity:
  "IO_bind (IO_bind m (\<lambda>x s. (f x, s))) (\<lambda>y s. (g y, s))
   = IO_bind m (\<lambda>x s. (IO_bind (f x) (\<lambda>y s. (g y, s)), s))"
  by (simp add: IO_bind_def runUnsafe_def split_beta)

lemma List_left_identity: "List_bind (List_pure a) f = f a"
  by (simp add: List_pure_def)

lemma List_right_identity: "List_bind m List_pure = m"
  by (induction m) (simp_all add: List_pure_def)

lemma List_associativity: "List_bind (List_bind m f) g = List_bind m (\<lambda>x. List_bind (f x) g)"
  by (induction m) (simp_all add: List_bind_concat_List)

lemma Writer_left_identity:
  "lawful M \<Longrightarrow> monoid (f a) = M \<Longrightarrow> Writer_bind (Writer_of a M) f = f a"
  by (simp add: Writer_bind_def Writer_of_def lawful_def Let_def)

lemma Writer_right_identity:
  "lawful (monoid m) \<Longrightarrow> Writer_bind m (\<lambda>v. Writer_of v (monoid m)) = m"
  by (simp add: Writer_bind_def Writer_of_def lawful_def Let_def)

lemma Writer_associativity:
  "lawful (monoid m) \<Longrightarrow> \<forall>x. monoid (f x) = monoid m \<Longrightarrow>
   Writer_bind (Writer_bind m f) g = Writer_bind m (\<lambda>x. Writer_bind (f x) g)"
  by (simp add: Writer_bind_def lawful_def Let_def)

lemma Writer_assert_left_identity:
  "lawful M \<Longrightarrow> monoid (f a (Make M)) = M \<Longrightarrow>
   Writer_bind_assert (Writer_of a M) (\<lambda>x mk. Inr (f x mk)) = Inr (f a (Make M))"
  by (simp add: Writer_bind_assert_def Writer_of_def lawful_def Let_def and_then_def)

lemma Writer_assert_right_identity:
  "lawful (monoid m) \<Longrightarrow>
   Writer_bind_assert m (\<lambda>v mk. Inr (make_call mk v (pure (monoid m)))) = Inr m"
  by (simp add: Writer_bind_assert_def lawful_def Let_def and_then_def)

lemma Writer_assert_right_identity_of:
  "lawful (monoid m) \<Longrightarrow>
   Writer_bind_assert m (\<lambda>v mk. Inr (Writer_of v (monoid m))) = Inr m"
  by (simp add: Writer_bind_assert_def Writer_of_def lawful_def Let_def and_then_def)

lemma Writer_assert_associativity:
  "lawful (monoid m) \<Longrightarrow> \<forall>x. monoid (f x (Make (monoid m))) = monoid m \<Longrightarrow>
   and_then (Writer_bind_assert m (\<lambda>x mk. Inr (f x mk)))
     (\<lambda>r. Writer_bind_assert r (\<lambda>y mk. Inr (g y mk)))
   = Writer_bind_assert m (\<lambda>x mk. Writer_bind_assert (f x mk) (\<lambda>y mk. Inr (g y mk)))"
  by (simp add: Writer_bind_assert_def lawful_def Let_def and_then_def)

text \<open>
  C2. Left identity, right identity and associativity of \<^verbatim>\<open>bind\<close> for Option, Either,
  Try, IO, List and Writer. For Writer the monoid \<open>M\<close> is fixed and lawful: the receiver
  \<open>mw\<close> and the results of the first callback carry \<open>M\<close>. Both forms of \<^verbatim>\<open>Writer.bind\<close>
  are covered; in the form with \<^verbatim>\<open>make\<close> the unit is \<^verbatim>\<open>(v, make) => make(v, M.pure)\<close>,
  or \<^verbatim>\<open>(v) => Writer.of(v, M)\<close>.
\<close>

theorem bind_satisfies_monad_laws:
  assumes "lawful M"
    and "monoid mw = M"
    and "\<forall>x. monoid (fw x) = M"
    and "\<forall>x. monoid (fk x (Make M)) = M"
  shows
    "Option_bind (Option_pure ao) (\<lambda>x. Inr (fo x)) = Inr (fo ao)
     \<and> Option_bind mo (\<lambda>x. Inr (Option_pure x)) = Inr mo
     \<and> and_then (Option_bind mo (\<lambda>x. Inr (fo x))) (\<lambda>r. Option_bind r (\<lambda>y. Inr (go y)))
         = Option_bind mo (\<lambda>x. Option_bind (fo x) (\<lambda>y. Inr (go y)))
     \<and> Either_bind (asRight ae) (\<lambda>x. Inr (fe x)) = Inr (fe ae)
     \<and> Either_bind me (\<lambda>x. Inr (asRight x)) = Inr me
     \<and> and_then (Either_bind me (\<lambda>x. Inr (fe x))) (\<lambda>r. Either_bind r (\<lambda>y. Inr (ge y)))
         = Either_bind me (\<lambda>x. Either_bind (fe x) (\<lambda>y. Inr (ge y)))
     \<and> Try_bind (Success at) (\<lambda>x. Inr (ft x)) = ft at
     \<and> Try_bind mt (\<lambda>x. Inr (Success x)) = mt
     \<and> Try_bind (Try_bind mt (\<lambda>x. Inr (ft x))) (\<lambda>y. Inr (gt y))
         = Try_bind mt (\<lambda>x. Inr (Try_bind (ft x) (\<lambda>y. Inr (gt y))))
     \<and> IO_bind (IO_of ai) (\<lambda>x s. (fi x, s)) = fi ai
     \<and> IO_bind mi (\<lambda>x s. (IO_of x, s)) = mi
     \<and> IO_bind (IO_bind mi (\<lambda>x s. (fi x, s))) (\<lambda>y s. (gi y, s))
         = IO_bind mi (\<lambda>x s. (IO_bind (fi x) (\<lambda>y s. (gi y, s)), s))
     \<and> List_bind (List_pure al) fl = fl al
     \<and> List_bind ml List_pure = ml
     \<and> List_bind (List_bind ml fl) gl = List_bind ml (\<lambda>x. List_bind (fl x) gl)
     \<and> Writer_bind (Writer_of aw M) fw = fw aw
     \<and> Writer_bind mw (\<lambda>v. Writer_of v M) = mw
     \<and> Writer_bind (Writer_bind mw fw) gw = Writer_bind mw (\<lambda>x. Writer_bind (fw x) gw)
     \<and> Writer_bind_assert (Writer_of aw M) (\<lambda>x mk. Inr (fk x mk)) = Inr (fk aw (Make M))
     \<and> Writer_bind_assert mw (\<lambda>v mk. Inr (make_call mk v (pure M))) = Inr mw
     \<and> Writer_bind_assert mw (\<lambda>v mk. Inr (Writer_of v M)) = Inr mw
     \<and> and_then (Writer_bind_assert mw (\<lambda>x mk. Inr (fk x mk)))
           (\<lambda>r. Writer_bind_assert r (\<lambda>y mk. Inr (gk y mk)))
         = Writer_bind_assert mw
             (\<lambda>x mk. Writer_bind_assert (fk x mk) (\<lambda>y mk. Inr (gk y mk)))"
proof -
  have lawful_mw: "lawful (monoid mw)"
    using assms(1,2) by simp
  have fw_mw: "\<forall>x. monoid (fw x) = monoid mw"
    using assms(2,3) by simp
  have fk_mw: "\<forall>x. monoid (fk x (Make (monoid mw))) = monoid mw"
    using assms(2,4) by simp
  have w1: "Writer_bind (Writer_of aw M) fw = fw aw"
    using assms(1,3) by (simp add: Writer_left_identity)
  have w2: "Writer_bind mw (\<lambda>v. Writer_of v M) = mw"
    using Writer_right_identity [OF lawful_mw] assms(2) by simp
  have w3: "Writer_bind (Writer_bind mw fw) gw = Writer_bind mw (\<lambda>x. Writer_bind (fw x) gw)"
    using Writer_associativity [where m = mw and f = fw and g = gw] lawful_mw fw_mw
    by blast
  have k1: "Writer_bind_assert (Writer_of aw M) (\<lambda>x mk. Inr (fk x mk)) = Inr (fk aw (Make M))"
    using assms(1,4) by (simp add: Writer_assert_left_identity)
  have k2: "Writer_bind_assert mw (\<lambda>v mk. Inr (make_call mk v (pure M))) = Inr mw"
    using Writer_assert_right_identity [OF lawful_mw] assms(2) by simp
  have k2': "Writer_bind_assert mw (\<lambda>v mk. Inr (Writer_of v M)) = Inr mw"
    using Writer_assert_right_identity_of [OF lawful_mw] assms(2) by simp
  have k3: "and_then (Writer_bind_assert mw (\<lambda>x mk. Inr (fk x mk)))
           (\<lambda>r. Writer_bind_assert r (\<lambda>y mk. Inr (gk y mk)))
         = Writer_bind_assert mw
             (\<lambda>x mk. Writer_bind_assert (fk x mk) (\<lambda>y mk. Inr (gk y mk)))"
    using Writer_assert_associativity [where m = mw and f = fk and g = gk] lawful_mw fk_mw
    by blast
  show ?thesis
    by (intro conjI Option_left_identity Option_right_identity Option_associativity
        Either_left_identity Either_right_identity Either_associativity
        Try_left_identity Try_right_identity Try_associativity
        IO_left_identity IO_right_identity IO_associativity
        List_left_identity List_right_identity List_associativity
        w1 w2 w3 k1 k2 k2' k3)
qed

lemma lawful_StringConcatMonoid: "lawful StringConcatMonoid"
  by (simp add: lawful_def StringConcatMonoid_def)

lemma lawful_ListMonoid: "lawful (ListMonoid a)"
  by (simp add: lawful_def ListMonoid_def)

text \<open>
  The laws at concrete containers: the Writer of the class's own example,
  \<^verbatim>\<open>Writer.of(2, StringConcatMonoid)\<close> with the steps "Added 3" and "Doubled", and the
  list \<open>[1, 2, 3]\<close> with \<open>f x = [x, x * 10]\<close>.
\<close>

theorem bind_satisfies_monad_laws_witness:
  "lawful StringConcatMonoid
   \<and> Writer_bind (Writer_bind (Writer_of (2 :: int) StringConcatMonoid)
         (\<lambda>v. Writer_tell (Writer_of (v + 3) StringConcatMonoid) ''Added 3''))
         (\<lambda>v. Writer_tell (Writer_of (v * 2) StringConcatMonoid) ''Doubled'')
       = Writer_bind (Writer_of 2 StringConcatMonoid)
           (\<lambda>x. Writer_bind (Writer_tell (Writer_of (x + 3) StringConcatMonoid) ''Added 3'')
              (\<lambda>v. Writer_tell (Writer_of (v * 2) StringConcatMonoid) ''Doubled''))
   \<and> Writer_bind_assert (Writer_of (2 :: int) StringConcatMonoid)
         (\<lambda>x mk. Inr (make_call mk (x + 3) ''Added 3''))
       = (Inr (make_call (Make StringConcatMonoid) (5 :: int) ''Added 3'')
           :: unit thrown + (string, int) Writer)
   \<and> List_bind (List_bind (of_list [1, 2, 3 :: int]) (\<lambda>x. of_list [x, x * 10])) List_pure
       = List_bind (of_list [1, 2, 3]) (\<lambda>x. List_bind (of_list [x, x * 10]) List_pure)
   \<and> Option_bind (Option_pure (5 :: int)) (\<lambda>x. Inr (Some (x + 1)))
       = (Inr (Some 6) :: unit + int Option)"
proof -
  let ?M = StringConcatMonoid
  let ?mw = "Writer_of (2 :: int) ?M"
  let ?fw = "\<lambda>v :: int. Writer_tell (Writer_of (v + 3) ?M) ''Added 3''"
  let ?gw = "\<lambda>v :: int. Writer_tell (Writer_of (v * 2) ?M) ''Doubled''"
  let ?fk = "\<lambda>(x :: int) mk. make_call mk (x + 3) ''Added 3''"
  have h1: "lawful ?M"
    by (rule lawful_StringConcatMonoid)
  have h2: "monoid ?mw = ?M"
    by (simp add: Writer_of_def)
  have h3: "\<forall>x. monoid (?fw x) = ?M"
    by (simp add: Writer_of_def Writer_tell_def Let_def)
  have h4: "\<forall>x. monoid (?fk x (Make ?M)) = ?M"
    by simp
  note laws = bind_satisfies_monad_laws [where M = ?M and mw = ?mw and fw = ?fw and fk = ?fk
        and gw = ?gw and gk = "\<lambda>(x :: int) mk. make_call mk (x * 2) ''Doubled''"
        and aw = 2 and al = 7 and ml = "of_list [1, 2, 3 :: int]"
        and fl = "\<lambda>x. of_list [x, x * 10]" and gl = List_pure
        and ao = "5 :: int" and fo = "\<lambda>x. Some (x + 1)" and mo = "Some (5 :: int)"
        and go = "\<lambda>x :: int. Some (x * 2)"
        and ae = "5 :: int" and fe = "\<lambda>x. Right (x + 1) :: (string, int) Either"
        and me = "Left ''e''" and ge = "\<lambda>x :: int. Right (x * 2) :: (string, int) Either"
        and at = "5 :: int" and ft = "\<lambda>x. Success (x + 1) :: (int, string) Try"
        and mt = "Failure ''boom''" and gt = "\<lambda>x :: int. Success (x * 2) :: (int, string) Try"
        and ai = "43 :: int" and fi = "\<lambda>x. IO_of x :: (int, int) IO"
        and mi = counter_program and gi = "\<lambda>x. IO_of (x + 1) :: (int, int) IO",
        OF h1 h2 h3 h4]
  have w: "Writer_bind (Writer_bind ?mw ?fw) ?gw = Writer_bind ?mw (\<lambda>x. Writer_bind (?fw x) ?gw)"
    using laws by blast
  have k: "Writer_bind_assert ?mw (\<lambda>x mk. Inr (?fk x mk))
      = (Inr (?fk 2 (Make ?M)) :: unit thrown + (string, int) Writer)"
    using laws by blast
  have l: "List_bind (List_bind (of_list [1, 2, 3 :: int]) (\<lambda>x. of_list [x, x * 10])) List_pure
       = List_bind (of_list [1, 2, 3]) (\<lambda>x. List_bind (of_list [x, x * 10]) List_pure)"
    using laws by blast
  have o: "Option_bind (Option_pure (5 :: int)) (\<lambda>x. Inr (Some (x + 1)))
       = (Inr (Some (5 + 1)) :: unit + int Option)"
    using laws by blast
  show ?thesis
    using h1 w k l o by simp
qed

subsection \<open>IO\<close>

lemma runUnsafe_IO_bind:
  "runUnsafe (IO_bind io func) s =
     (case runUnsafe io s of (a, s1) \<Rightarrow> (case func a s1 of (next, s2) \<Rightarrow> runUnsafe next s2))"
  by (simp add: IO_bind_def runUnsafe_def)

lemma runUnsafe_counter_program: "runUnsafe counter_program c = (1, c + 1)"
  by (simp add: counter_program_def IO_bind_def IO_of_def runUnsafe_def)

text \<open>
  C9. Building an \<^verbatim>\<open>IO\<close> runs nothing: \<^verbatim>\<open>of\<close>, \<^verbatim>\<open>from\<close>, \<^verbatim>\<open>bind\<close> and \<^verbatim>\<open>map\<close> are
  functions of their arguments alone, and what each built \<^verbatim>\<open>IO\<close> does is done by
  \<^verbatim>\<open>runUnsafe\<close>, from the state \<^verbatim>\<open>runUnsafe\<close> is called in. A run of \<^verbatim>\<open>io.bind(func)\<close> runs
  the effect of \<open>io\<close>, then \<open>func\<close>, then the effect of the \<^verbatim>\<open>IO\<close> that \<open>func\<close> returned:
  the whole chain, on every call. The program of the test counts \<open>1\<close> on each run, so
  \<open>2\<close> after two runs; and any \<^verbatim>\<open>IO\<close> whose run adds one to a counter of the state adds
  two in two runs.
\<close>

theorem IO_is_deferred_and_rerun:
  "runUnsafe (IO_of v) s = (v, s)
   \<and> runUnsafe (IO_from thunk) s = thunk s
   \<and> runUnsafe (IO_bind io func) s =
       (case runUnsafe io s of (a, s1) \<Rightarrow>
          (case func a s1 of (next, s2) \<Rightarrow> runUnsafe next s2))
   \<and> runUnsafe (IO_map io g) s = (case runUnsafe io s of (a, s1) \<Rightarrow> g a s1)
   \<and> runUnsafe counter_program c = (1, c + 1)
   \<and> runUnsafe counter_program (snd (runUnsafe counter_program c)) = (1, c + 2)
   \<and> ((\<forall>s'. counter (snd (runUnsafe p s')) = counter s' + (1 :: int))
        \<longrightarrow> counter (snd (runUnsafe p (snd (runUnsafe p s0)))) = counter s0 + 2)"
  by (simp add: runUnsafe_IO_bind runUnsafe_counter_program)
    (simp add: IO_of_def IO_from_def IO_map_def runUnsafe_def)

theorem IO_is_deferred_and_rerun_witness:
  "(\<forall>s'. snd (runUnsafe counter_program s') = s' + 1)
   \<and> snd (runUnsafe counter_program (snd (runUnsafe counter_program 0))) = 2"
proof -
  have h: "\<forall>s'. snd (runUnsafe counter_program s') = s' + 1"
    by (simp add: runUnsafe_counter_program)
  have "snd (runUnsafe counter_program (snd (runUnsafe counter_program 0))) = 0 + 2"
    using IO_is_deferred_and_rerun [where p = counter_program and counter = "\<lambda>s. s"
        and ?s0.0 = 0 and c = 0 and s = "0 :: int" and v = "1 :: int"
        and thunk = "\<lambda>s. (1 :: int, s + 1)" and io = counter_program
        and func = "\<lambda>v s. (IO_of (v :: int), s + 1)" and g = "\<lambda>v s. (v :: int, s)"] h
    by blast
  then show ?thesis
    using h by simp
qed

subsection \<open>Writer\<close>

lemma log_fac_step:
  "monoid w = StringLog \<Longrightarrow> log (fac_step temp n w) = log w @ temp n (value w * n)"
  by (simp add: fac_step_def Writer_bind_def Writer_tell_def Writer_of_def Let_def
      StringLog_def StringConcatMonoid_def)

lemma value_fac_step: "value (fac_step temp n w) = value w * n"
  by (simp add: fac_step_def Writer_bind_def Writer_tell_def Writer_of_def Let_def)

lemma monoid_fac_step: "monoid (fac_step temp n w) = monoid w"
  by (simp add: fac_step_def Writer_bind_def Let_def)

lemma Writer_bind_assert_same_monoid:
  "k (value w) (Make (monoid w)) = Inr r \<Longrightarrow> address (monoid r) = address (monoid w) \<Longrightarrow>
   Writer_bind_assert w k
     = Inr \<lparr>value = value r, log = combine (monoid w) (log w) (log r), monoid = monoid w\<rparr>"
  by (simp add: Writer_bind_assert_def and_then_def Let_def)

lemma Writer_bind_assert_other_monoid:
  "k (value w) (Make (monoid w)) = Inr r \<Longrightarrow> address (monoid r) \<noteq> address (monoid w) \<Longrightarrow>
   Writer_bind_assert w k = Inl (AssertionError ''Must have the same monoid'')"
  by (simp add: Writer_bind_assert_def and_then_def)

text \<open>
  C7. The log after \<^verbatim>\<open>bind\<close> is \<^verbatim>\<open>monoid.combine(old log, log of the callback's result)\<close>,
  the old log first, in both forms of \<^verbatim>\<open>bind\<close> (in the asserting form when the result
  carries the receiver's monoid object); \<^verbatim>\<open>tell(l)\<close> gives the log
  \<^verbatim>\<open>monoid.combine(old log, l)\<close> and keeps the value; and the factorial chain of five
  binds on the string monoid has the five entries concatenated in call order and the
  value \<open>120\<close>.
\<close>

theorem Writer_log_old_then_new:
  "log (Writer_bind w f) = combine (monoid w) (log w) (log (f (value w)))
   \<and> value (Writer_bind w f) = value (f (value w))
   \<and> monoid (Writer_bind w f) = monoid w
   \<and> (k (value w) (Make (monoid w)) = Inr r \<and> address (monoid r) = address (monoid w)
        \<longrightarrow> Writer_bind_assert w k
            = Inr \<lparr>value = value r, log = combine (monoid w) (log w) (log r), monoid = monoid w\<rparr>)
   \<and> log (Writer_tell w l) = combine (monoid w) (log w) l
   \<and> value (Writer_tell w l) = value w
   \<and> monoid (Writer_tell w l) = monoid w
   \<and> log (factorial5 temp) = temp 1 1 @ temp 2 2 @ temp 3 6 @ temp 4 24 @ temp 5 120
   \<and> value (factorial5 temp) = 120"
proof -
  have bind_tell: "log (Writer_bind w f) = combine (monoid w) (log w) (log (f (value w)))
      \<and> value (Writer_bind w f) = value (f (value w))
      \<and> monoid (Writer_bind w f) = monoid w
      \<and> log (Writer_tell w l) = combine (monoid w) (log w) l
      \<and> value (Writer_tell w l) = value w
      \<and> monoid (Writer_tell w l) = monoid w"
    by (simp add: Writer_bind_def Writer_tell_def Let_def)
  have start: "monoid (Writer_of (1 :: int) StringLog) = StringLog"
      "log (Writer_of (1 :: int) StringLog) = []" "value (Writer_of (1 :: int) StringLog) = 1"
    by (simp_all add: Writer_of_def StringLog_def StringConcatMonoid_def)
  have fac_log: "log (factorial5 temp) = temp 1 1 @ temp 2 2 @ temp 3 6 @ temp 4 24 @ temp 5 120"
    by (simp add: factorial5_def log_fac_step value_fac_step monoid_fac_step start)
  have fac_value: "value (factorial5 temp) = 120"
    by (simp add: factorial5_def value_fac_step start)
  show ?thesis
    using bind_tell fac_log fac_value Writer_bind_assert_same_monoid [of k w r]
    by blast
qed

text \<open>
  The bind of the Writer test: \<^verbatim>\<open>Writer.of(rn, StringConcatMonoid).bind((value, make) =>\<close>
  \<^verbatim>\<open>make(value + 1, msg))\<close>, from a receiver that already holds a log.
\<close>

theorem Writer_log_old_then_new_witness:
  "Writer_bind_assert (Writer_tell (Writer_of (1 :: int) StringConcatMonoid) ''old;'')
       (\<lambda>v mk. Inr (make_call mk (v + 1) ''new;''))
     = (Inr \<lparr>value = 2, log = ''old;new;'', monoid = StringConcatMonoid\<rparr>
         :: unit thrown + (string, int) Writer)"
proof -
  let ?w = "Writer_tell (Writer_of (1 :: int) StringConcatMonoid) ''old;''"
  let ?k = "\<lambda>(v :: int) mk. Inr (make_call mk (v + 1) ''new;'')
      :: unit thrown + (string, int) Writer"
  let ?r = "make_call (Make StringConcatMonoid) (2 :: int) ''new;''"
  have w: "value ?w = 1" "log ?w = ''old;''" "monoid ?w = StringConcatMonoid"
    by (simp_all add: Writer_tell_def Writer_of_def Let_def StringConcatMonoid_def)
  have h1: "?k (value ?w) (Make (monoid ?w)) = Inr ?r"
    by (simp add: w)
  have h2: "address (monoid ?r) = address (monoid ?w)"
    by (simp add: w)
  have "Writer_bind_assert ?w ?k
      = Inr \<lparr>value = value ?r, log = combine (monoid ?w) (log ?w) (log ?r), monoid = monoid ?w\<rparr>"
    using Writer_log_old_then_new [where w = ?w and k = ?k and r = ?r
        and f = "\<lambda>v. Writer_of v StringConcatMonoid" and l = "''x''" and temp = "\<lambda>n v. ''e''"]
      h1 h2
    by blast
  then show ?thesis
    by (simp add: w) (simp add: StringConcatMonoid_def)
qed

text \<open>
  C8 (the code of \<^verbatim>\<open>bind\<close> in \<^verbatim>\<open>src/Writer.ts\<close>). The receiver carries \<^verbatim>\<open>StringLog\<close> and
  the callback returns a Writer over \<^verbatim>\<open>lastLogOnlyMonoid\<close>, another object. The \<^verbatim>\<open>bind\<close>
  without \<^verbatim>\<open>assert\<close> returns a Writer, the two logs combined by the receiver's monoid;
  the \<^verbatim>\<open>bind\<close> with \<^verbatim>\<open>assert\<close> raises on the same input.
\<close>

theorem Writer_bind_combines_across_monoids:
  "address lastLogOnlyMonoid \<noteq> address StringLog
   \<and> monoid (Writer_tell (Writer_of (2 :: int) lastLogOnlyMonoid) ''b'') = lastLogOnlyMonoid
   \<and> Writer_bind (Writer_tell (Writer_of (1 :: int) StringLog) ''a'')
         (\<lambda>v. Writer_tell (Writer_of (v + 1) lastLogOnlyMonoid) ''b'')
       = \<lparr>value = 2, log = ''ab'', monoid = StringLog\<rparr>
   \<and> Writer_bind_assert (Writer_tell (Writer_of (1 :: int) StringLog) ''a'')
         (\<lambda>v mk. Inr (Writer_tell (Writer_of (v + 1) lastLogOnlyMonoid) ''b''))
       = (Inl (AssertionError ''Must have the same monoid'')
           :: unit thrown + (string, int) Writer)"
  by (simp add: Writer_bind_def Writer_bind_assert_def Writer_tell_def Writer_of_def Let_def
      and_then_def StringLog_def StringConcatMonoid_def lastLogOnlyMonoid_def)

subsection \<open>The ADT matcher\<close>

text \<open>
  With a handler for every declared discriminant, \<^verbatim>\<open>match\<close> calls the handler stored
  under the discriminant of the value and returns its result.
\<close>

lemma ADT_match_dispatches:
  assumes "\<forall>k \<in> declared. \<exists>h. handlers k = Some h"
    and "ADT_type v \<in> declared"
  shows "\<exists>h. handlers (ADT_type v) = Some h \<and> ADT_match v handlers = Inr (HandlerResult (h v))"
proof -
  obtain h where "handlers (ADT_type v) = Some h"
    using assms by blast
  then show ?thesis
    by (simp add: ADT_match_def)
qed

text \<open>
  Without a handler for the discriminant of the value, \<^verbatim>\<open>match\<close> raises at the call,
  unless the discriminant is the name of a function inherited from \<^verbatim>\<open>Object.prototype\<close>.
\<close>

lemma ADT_match_missing_handler:
  "handlers (ADT_type v) = None \<Longrightarrow> ADT_type v \<notin> set Object_prototype_functions \<Longrightarrow>
   ADT_match v handlers = Inl TypeError"
  by (simp add: ADT_match_def)

lemma ADT_match_inherited:
  "handlers (ADT_type v) = None \<Longrightarrow> ADT_type v \<in> set Object_prototype_functions \<Longrightarrow>
   ADT_match v handlers = Inr (InheritedResult (ADT_type v))"
  by (simp add: ADT_match_def)

text \<open>
  C10 (the code of \<^verbatim>\<open>match\<close>). The sum type has the variants \<open>''A''\<close> and
  \<open>''toString''\<close>; the handler map \<^verbatim>\<open>{ A: (v) => 1 }\<close> has no handler for the second. On
  a value of the variant \<open>''toString''\<close>, \<^verbatim>\<open>handlers["toString"]\<close> is the inherited
  \<^verbatim>\<open>Object.prototype.toString\<close>, and \<^verbatim>\<open>match\<close> returns what that function returns: no
  error is raised, and the value returned is no handler's.
\<close>

theorem ADT_match_falls_through_to_inherited:
  "ADT_match (makeConstructors ''toString'' ()) [''A'' \<mapsto> (\<lambda>v. 1 :: int)]
     = Inr (InheritedResult ''toString'')
   \<and> ADT_match (makeConstructors ''A'' ()) [''A'' \<mapsto> (\<lambda>v. 1 :: int)] = Inr (HandlerResult 1)
   \<and> ADT_match (makeConstructors ''B'' ()) [''A'' \<mapsto> (\<lambda>v. 1 :: int)] = Inl TypeError"
  by (simp add: ADT_match_def makeConstructors_def Object_prototype_functions_def)

end
